theory Spec2Isabelle
  imports Main "HOL-Library.Word"
begin

section \<open>The C++ types the trait map ranges over\<close>

text \<open>
  The templates of \<^verbatim>\<open>xsimd_traits.hpp\<close> compute on types. A type is a value of
  \<open>ctype\<close>; \<^verbatim>\<open>std::is_same\<close> is equality of such values. The three character types
  of C++ are distinct types; \<^verbatim>\<open>int8_t\<close> and \<^verbatim>\<open>uint8_t\<close> are the typedefs of
  \<^verbatim>\<open>signed char\<close> and \<^verbatim>\<open>unsigned char\<close>. \<open>Int16\<close> stands for a scalar type
  that the header never mentions.
\<close>

datatype ctype =
    Bool
  | Char
  | Signed_Char
  | Unsigned_Char
  | Int16
  | Int32
  | Int64
  | Float
  | Double
  | Std_Complex ctype
  | Xcomplex ctype ctype bool
  | Batch ctype nat
  | Batch_Bool ctype nat

abbreviation int8_t :: ctype where "int8_t \<equiv> Signed_Char"
abbreviation uint8_t :: ctype where "uint8_t \<equiv> Unsigned_Char"
abbreviation int32_t :: ctype where "int32_t \<equiv> Int32"
abbreviation int64_t :: ctype where "int64_t \<equiv> Int64"

section \<open>The preprocessor environment and the width macros\<close>

text \<open>
  The header reads two instruction-set macros, five version constants and one feature
  flag, all defined outside it. They are the fields of \<open>macros\<close>; every definition below
  takes the environment as its first argument.
\<close>

record macros =
  XSIMD_X86_INSTR_SET :: nat
  XSIMD_ARM_INSTR_SET :: nat
  XSIMD_X86_SSE2_VERSION :: nat
  XSIMD_X86_AVX_VERSION :: nat
  XSIMD_X86_AVX512_VERSION :: nat
  XSIMD_ARM7_NEON_VERSION :: nat
  XSIMD_ARM8_64_NEON_VERSION :: nat
  XSIMD_ENABLE_XTL_COMPLEX :: bool

text \<open>
  The \<^verbatim>\<open>#if ... #elif ... #endif\<close> chain of lines 20 to 43, one function per macro it
  defines; \<open>None\<close> is "not defined".
\<close>

definition XSIMD_BATCH_INT8_SIZE :: "macros \<Rightarrow> nat option" where
  "XSIMD_BATCH_INT8_SIZE m =
     (if XSIMD_X86_INSTR_SET m \<ge> XSIMD_X86_AVX512_VERSION m then Some 64
      else if XSIMD_X86_INSTR_SET m \<ge> XSIMD_X86_AVX_VERSION m then Some 32
      else if XSIMD_X86_INSTR_SET m \<ge> XSIMD_X86_SSE2_VERSION m then Some 16
      else if XSIMD_ARM_INSTR_SET m \<ge> XSIMD_ARM7_NEON_VERSION m then Some 16
      else None)"

definition XSIMD_BATCH_INT32_SIZE :: "macros \<Rightarrow> nat option" where
  "XSIMD_BATCH_INT32_SIZE m =
     (if XSIMD_X86_INSTR_SET m \<ge> XSIMD_X86_AVX512_VERSION m then Some 16
      else if XSIMD_X86_INSTR_SET m \<ge> XSIMD_X86_AVX_VERSION m then Some 8
      else if XSIMD_X86_INSTR_SET m \<ge> XSIMD_X86_SSE2_VERSION m then Some 4
      else if XSIMD_ARM_INSTR_SET m \<ge> XSIMD_ARM7_NEON_VERSION m then Some 4
      else None)"

definition XSIMD_BATCH_INT64_SIZE :: "macros \<Rightarrow> nat option" where
  "XSIMD_BATCH_INT64_SIZE m =
     (if XSIMD_X86_INSTR_SET m \<ge> XSIMD_X86_AVX512_VERSION m then Some 8
      else if XSIMD_X86_INSTR_SET m \<ge> XSIMD_X86_AVX_VERSION m then Some 4
      else if XSIMD_X86_INSTR_SET m \<ge> XSIMD_X86_SSE2_VERSION m then Some 2
      else if XSIMD_ARM_INSTR_SET m \<ge> XSIMD_ARM7_NEON_VERSION m then Some 2
      else None)"

definition XSIMD_BATCH_FLOAT_SIZE :: "macros \<Rightarrow> nat option" where
  "XSIMD_BATCH_FLOAT_SIZE m =
     (if XSIMD_X86_INSTR_SET m \<ge> XSIMD_X86_AVX512_VERSION m then Some 16
      else if XSIMD_X86_INSTR_SET m \<ge> XSIMD_X86_AVX_VERSION m then Some 8
      else if XSIMD_X86_INSTR_SET m \<ge> XSIMD_X86_SSE2_VERSION m then Some 4
      else if XSIMD_ARM_INSTR_SET m \<ge> XSIMD_ARM7_NEON_VERSION m then Some 4
      else None)"

text \<open>
  \<^verbatim>\<open>XSIMD_BATCH_DOUBLE_SIZE\<close> is set by the three x86 branches of the chain and then,
  in the separate \<^verbatim>\<open>#if\<close> of lines 45 to 47, defined as 2 for 64-bit ARM.
\<close>

definition XSIMD_BATCH_DOUBLE_SIZE :: "macros \<Rightarrow> nat option" where
  "XSIMD_BATCH_DOUBLE_SIZE m =
     (if XSIMD_ARM_INSTR_SET m \<ge> XSIMD_ARM8_64_NEON_VERSION m then Some 2
      else if XSIMD_X86_INSTR_SET m \<ge> XSIMD_X86_AVX512_VERSION m then Some 8
      else if XSIMD_X86_INSTR_SET m \<ge> XSIMD_X86_AVX_VERSION m then Some 4
      else if XSIMD_X86_INSTR_SET m \<ge> XSIMD_X86_SSE2_VERSION m then Some 2
      else None)"

section \<open>The trait map: \<^verbatim>\<open>simd_traits\<close> and \<^verbatim>\<open>revert_simd_traits\<close>\<close>

record traits =
  tr_type :: ctype
  tr_bool_type :: ctype
  tr_size :: nat

text \<open>
  \<open>specialization m T\<close> is the width \<open>N\<close> of the explicit specialisation
  \<^verbatim>\<open>simd_traits<T>\<close> that the environment compiles in, in the order of the header:
  the block under \<^verbatim>\<open>#ifdef XSIMD_BATCH_FLOAT_SIZE\<close> (lines 76 to 183), then the block
  under \<^verbatim>\<open>#ifdef XSIMD_BATCH_DOUBLE_SIZE\<close> (lines 185 to 232); the \<^verbatim>\<open>xtl::xcomplex\<close>
  entries are further guarded by \<^verbatim>\<open>XSIMD_ENABLE_XTL_COMPLEX\<close>. \<open>None\<close> means that
  only the primary template matches.
\<close>

definition specialization :: "macros \<Rightarrow> ctype \<Rightarrow> nat option" where
  "specialization m T =
     (if XSIMD_BATCH_FLOAT_SIZE m \<noteq> None \<and> T = int8_t then XSIMD_BATCH_INT8_SIZE m
      else if XSIMD_BATCH_FLOAT_SIZE m \<noteq> None \<and> T = uint8_t then XSIMD_BATCH_INT8_SIZE m
      else if XSIMD_BATCH_FLOAT_SIZE m \<noteq> None \<and> T = int32_t then XSIMD_BATCH_INT32_SIZE m
      else if XSIMD_BATCH_FLOAT_SIZE m \<noteq> None \<and> T = int64_t then XSIMD_BATCH_INT64_SIZE m
      else if XSIMD_BATCH_FLOAT_SIZE m \<noteq> None \<and> T = Float then XSIMD_BATCH_FLOAT_SIZE m
      else if XSIMD_BATCH_FLOAT_SIZE m \<noteq> None \<and> T = Std_Complex Float
        then XSIMD_BATCH_FLOAT_SIZE m
      else if XSIMD_BATCH_FLOAT_SIZE m \<noteq> None \<and> XSIMD_ENABLE_XTL_COMPLEX m
              \<and> (\<exists>i3ec \<in> {False, True}. T = Xcomplex Float Float i3ec)
        then XSIMD_BATCH_FLOAT_SIZE m
      else if XSIMD_BATCH_DOUBLE_SIZE m \<noteq> None \<and> T = Double then XSIMD_BATCH_DOUBLE_SIZE m
      else if XSIMD_BATCH_DOUBLE_SIZE m \<noteq> None \<and> T = Std_Complex Double
        then XSIMD_BATCH_DOUBLE_SIZE m
      else if XSIMD_BATCH_DOUBLE_SIZE m \<noteq> None \<and> XSIMD_ENABLE_XTL_COMPLEX m
              \<and> (\<exists>i3ec \<in> {False, True}. T = Xcomplex Double Double i3ec)
        then XSIMD_BATCH_DOUBLE_SIZE m
      else None)"

text \<open>
  Modelled from the spec: \<^verbatim>\<open>simd_batch_traits<batch<T, N>>::batch_bool_type\<close> and
  \<^verbatim>\<open>batch<T, N>::size\<close> are declared outside the two source files. The spec's data
  model gives them: the bool companion of \<^verbatim>\<open>batch<T, N>\<close> is \<^verbatim>\<open>batch_bool<T, N>\<close> and
  a batch of declared width \<open>N\<close> has \<open>N\<close> lanes.
\<close>

definition batch_bool_type :: "ctype \<Rightarrow> nat \<Rightarrow> ctype" where
  "batch_bool_type T N = Batch_Bool T N"

definition batch_size :: "ctype \<Rightarrow> nat \<Rightarrow> nat" where
  "batch_size T N = N"

text \<open>
  \<^verbatim>\<open>simd_traits<T>\<close>: the specialisation when one is compiled in, the primary template
  of lines 52 to 58 otherwise.
\<close>

definition simd_traits :: "macros \<Rightarrow> ctype \<Rightarrow> traits" where
  "simd_traits m T =
     (case specialization m T of
        Some N \<Rightarrow> \<lparr>tr_type = Batch T N, tr_bool_type = batch_bool_type T N,
                   tr_size = batch_size T N\<rparr>
      | None \<Rightarrow> \<lparr>tr_type = T, tr_bool_type = Bool, tr_size = 1\<rparr>)"

definition simd_type :: "macros \<Rightarrow> ctype \<Rightarrow> ctype" where
  "simd_type m T = tr_type (simd_traits m T)"

definition simd_bool_type :: "macros \<Rightarrow> ctype \<Rightarrow> ctype" where
  "simd_bool_type m T = tr_bool_type (simd_traits m T)"

text \<open>
  The explicit specialisations of \<^verbatim>\<open>revert_simd_traits\<close>, in the order of the header
  (lines 85 to 230); \<open>revert_specialization m V\<close> is the member \<^verbatim>\<open>type\<close> of the one
  that matches \<open>V\<close>. Each entry is written for \<^verbatim>\<open>batch<T, MACRO>\<close> with one of the
  width macros, so it matches \<open>V\<close> when \<open>V\<close> is the batch of \<open>T\<close> at the value of
  that macro, under the guard of its block: \<^verbatim>\<open>#ifdef XSIMD_BATCH_FLOAT_SIZE\<close> for the
  first seven, \<^verbatim>\<open>#ifdef XSIMD_BATCH_DOUBLE_SIZE\<close> for the last three, and
  \<^verbatim>\<open>XSIMD_ENABLE_XTL_COMPLEX\<close> for the two \<^verbatim>\<open>xtl::xcomplex\<close> templates, which stand
  here once for each value of their parameter \<^verbatim>\<open>i3ec\<close>. \<open>None\<close> means that only the
  primary template matches.
\<close>

definition revert_specialization :: "macros \<Rightarrow> ctype \<Rightarrow> ctype option" where
  "revert_specialization m V =
     (if XSIMD_BATCH_FLOAT_SIZE m \<noteq> None
           \<and> Some V = map_option (Batch int8_t) (XSIMD_BATCH_INT8_SIZE m)
        then Some int8_t
      else if XSIMD_BATCH_FLOAT_SIZE m \<noteq> None
           \<and> Some V = map_option (Batch uint8_t) (XSIMD_BATCH_INT8_SIZE m)
        then Some uint8_t
      else if XSIMD_BATCH_FLOAT_SIZE m \<noteq> None
           \<and> Some V = map_option (Batch int32_t) (XSIMD_BATCH_INT32_SIZE m)
        then Some int32_t
      else if XSIMD_BATCH_FLOAT_SIZE m \<noteq> None
           \<and> Some V = map_option (Batch int64_t) (XSIMD_BATCH_INT64_SIZE m)
        then Some int64_t
      else if XSIMD_BATCH_FLOAT_SIZE m \<noteq> None
           \<and> Some V = map_option (Batch Float) (XSIMD_BATCH_FLOAT_SIZE m)
        then Some Float
      else if XSIMD_BATCH_FLOAT_SIZE m \<noteq> None
           \<and> Some V = map_option (Batch (Std_Complex Float)) (XSIMD_BATCH_FLOAT_SIZE m)
        then Some (Std_Complex Float)
      else if XSIMD_BATCH_FLOAT_SIZE m \<noteq> None \<and> XSIMD_ENABLE_XTL_COMPLEX m
           \<and> Some V = map_option (Batch (Xcomplex Float Float False)) (XSIMD_BATCH_FLOAT_SIZE m)
        then Some (Xcomplex Float Float False)
      else if XSIMD_BATCH_FLOAT_SIZE m \<noteq> None \<and> XSIMD_ENABLE_XTL_COMPLEX m
           \<and> Some V = map_option (Batch (Xcomplex Float Float True)) (XSIMD_BATCH_FLOAT_SIZE m)
        then Some (Xcomplex Float Float True)
      else if XSIMD_BATCH_DOUBLE_SIZE m \<noteq> None
           \<and> Some V = map_option (Batch Double) (XSIMD_BATCH_DOUBLE_SIZE m)
        then Some Double
      else if XSIMD_BATCH_DOUBLE_SIZE m \<noteq> None
           \<and> Some V = map_option (Batch (Std_Complex Double)) (XSIMD_BATCH_DOUBLE_SIZE m)
        then Some (Std_Complex Double)
      else if XSIMD_BATCH_DOUBLE_SIZE m \<noteq> None \<and> XSIMD_ENABLE_XTL_COMPLEX m
           \<and> Some V
               = map_option (Batch (Xcomplex Double Double False)) (XSIMD_BATCH_DOUBLE_SIZE m)
        then Some (Xcomplex Double Double False)
      else if XSIMD_BATCH_DOUBLE_SIZE m \<noteq> None \<and> XSIMD_ENABLE_XTL_COMPLEX m
           \<and> Some V
               = map_option (Batch (Xcomplex Double Double True)) (XSIMD_BATCH_DOUBLE_SIZE m)
        then Some (Xcomplex Double Double True)
      else None)"

text \<open>
  \<^verbatim>\<open>revert_simd_traits<V>\<close>: the matching specialisation, the primary template of lines
  60 to 65 otherwise. Both compute \<^verbatim>\<open>size\<close> as \<^verbatim>\<open>simd_traits<type>::size\<close>.
\<close>

record revert_traits =
  rv_type :: ctype
  rv_size :: nat

definition revert_simd_traits :: "macros \<Rightarrow> ctype \<Rightarrow> revert_traits" where
  "revert_simd_traits m V =
     (case revert_specialization m V of
        Some T \<Rightarrow> \<lparr>rv_type = T, rv_size = tr_size (simd_traits m T)\<rparr>
      | None \<Rightarrow> \<lparr>rv_type = V, rv_size = tr_size (simd_traits m V)\<rparr>)"

definition revert_simd_type :: "macros \<Rightarrow> ctype \<Rightarrow> ctype" where
  "revert_simd_type m V = rv_type (revert_simd_traits m V)"

section \<open>The promotion resolver: \<^verbatim>\<open>simd_return_type\<close>\<close>

text \<open>
  Modelled from the spec: \<^verbatim>\<open>detail::is_complex\<close> is declared outside the two source
  files. The spec's promotion rule names "complex" as the last admissible first operand:
  \<^verbatim>\<open>std::complex<T>\<close>, and \<^verbatim>\<open>xtl::xcomplex<T, T, i3ec>\<close> when that extension is enabled.
\<close>

fun is_complex :: "macros \<Rightarrow> ctype \<Rightarrow> bool" where
  "is_complex m (Std_Complex T) = True"
| "is_complex m (Xcomplex T U i3ec) = (XSIMD_ENABLE_XTL_COMPLEX m \<and> T = U)"
| "is_complex m T = False"

definition simd_condition :: "macros \<Rightarrow> ctype \<Rightarrow> ctype \<Rightarrow> bool" where
  "simd_condition m T1 T2 \<longleftrightarrow>
     T1 = T2 \<or>
     T1 = Float \<or>
     T1 = Double \<or>
     T1 = int64_t \<or>
     T1 = int32_t \<or>
     T1 = Char \<or>
     T1 = Unsigned_Char \<or>
     is_complex m T1"

text \<open>
  \<^verbatim>\<open>simd_return_type_impl\<close>: \<^verbatim>\<open>std::enable_if\<close> has a member \<^verbatim>\<open>type\<close> only when its
  condition holds, so the result is an option and \<open>None\<close> is the failed instantiation.
  The three partial specialisations come first, the primary template last, as partial
  ordering selects them.
\<close>

fun simd_return_type_impl :: "macros \<Rightarrow> ctype \<Rightarrow> ctype \<Rightarrow> ctype option" where
  "simd_return_type_impl m (Batch T1 N1) (Batch T2 N2) =
     (if simd_condition m T1 T2 then Some (Batch T2 N2) else None)"
| "simd_return_type_impl m (Batch T1 N1) (Batch_Bool T2 N2) =
     (if simd_condition m T1 T2 then Some (Batch_Bool T2 N2) else None)"
| "simd_return_type_impl m (Batch_Bool T1 N1) (Batch_Bool T2 N2) =
     (if simd_condition m T1 T2 then Some (Batch_Bool T2 N2) else None)"
| "simd_return_type_impl m T1 T2 =
     (if simd_condition m T1 T2 then Some (simd_type m T2) else None)"

definition simd_return_type :: "macros \<Rightarrow> ctype \<Rightarrow> ctype \<Rightarrow> ctype option" where
  "simd_return_type m T1 T2 = simd_return_type_impl m T1 T2"

text \<open>
  \<^verbatim>\<open>is_batch_bool\<close> of lines 288 to 296, and the same test for \<^verbatim>\<open>batch<T, N>\<close>; the
  theorems use them to tell a scalar operand from a vector one.
\<close>

fun is_batch_bool :: "ctype \<Rightarrow> bool" where
  "is_batch_bool (Batch_Bool T N) = True"
| "is_batch_bool V = False"

fun is_batch :: "ctype \<Rightarrow> bool" where
  "is_batch (Batch T N) = True"
| "is_batch V = False"

text \<open>
  Two sample environments for the closed theorems: an x86 build at the SSE2 level and a
  build with no vector extension.
\<close>

abbreviation sse2_env :: macros where
  "sse2_env \<equiv>
     \<lparr>XSIMD_X86_INSTR_SET = 20, XSIMD_ARM_INSTR_SET = 0, XSIMD_X86_SSE2_VERSION = 20,
      XSIMD_X86_AVX_VERSION = 50, XSIMD_X86_AVX512_VERSION = 60,
      XSIMD_ARM7_NEON_VERSION = 70, XSIMD_ARM8_64_NEON_VERSION = 81,
      XSIMD_ENABLE_XTL_COMPLEX = False\<rparr>"

abbreviation scalar_env :: macros where
  "scalar_env \<equiv>
     \<lparr>XSIMD_X86_INSTR_SET = 0, XSIMD_ARM_INSTR_SET = 0, XSIMD_X86_SSE2_VERSION = 20,
      XSIMD_X86_AVX_VERSION = 50, XSIMD_X86_AVX512_VERSION = 60,
      XSIMD_ARM7_NEON_VERSION = 70, XSIMD_ARM8_64_NEON_VERSION = 81,
      XSIMD_ENABLE_XTL_COMPLEX = False\<rparr>"

section \<open>The generic kernels of \<^verbatim>\<open>xsimd_generic_memory.hpp\<close>\<close>

text \<open>
  A batch is the list of its lanes, lane 0 first; its width is the length of the list.
  Memory is a list of elements and a pointer is an index into it. What C++ leaves
  undefined is an error value, as are the two kinds of assertion.
\<close>

datatype error =
    Assertion_Failed
  | Static_Assertion_Failed
  | Out_Of_Bounds
  | Uninitialized_Read

subsection \<open>\<^verbatim>\<open>extract_pair\<close>\<close>

text \<open>
  \<^verbatim>\<open>concat_buffer\<close> is declared without initialiser, so each of its cells is \<open>None\<close> until
  the loop assigns it. \<^verbatim>\<open>batch::load_aligned(concat_buffer)\<close> reads every cell; reading
  a cell that was never assigned is \<open>Uninitialized_Read\<close>.
\<close>

definition load_aligned_scratch :: "'a option list \<Rightarrow> error + 'a list" where
  "load_aligned_scratch buffer =
     (if None \<in> set buffer then Inl Uninitialized_Read else Inr (map the buffer))"

text \<open>
  The loop of lines 47 to 54, with \<open>j\<close> as loop counter. Under the assertion \<open>i < sz\<close>
  no index expression wraps around, so \<^verbatim>\<open>std::size_t\<close> is \<open>nat\<close>.
\<close>

function extract_pair_loop ::
  "nat \<Rightarrow> nat \<Rightarrow> 'a list \<Rightarrow> 'a list \<Rightarrow> nat \<Rightarrow> 'a option list \<Rightarrow> 'a option list" where
  "extract_pair_loop sz i self_buffer other_buffer j concat_buffer =
     (if j < sz - i then
        let concat_buffer = concat_buffer[j := Some (other_buffer ! (i + j))];
            concat_buffer =
              (if j < i
               then concat_buffer[sz - 1 - j := Some (self_buffer ! (i - 1 - j))]
               else concat_buffer)
        in extract_pair_loop sz i self_buffer other_buffer (j + 1) concat_buffer
      else concat_buffer)"
  by pat_completeness auto
termination
  by (relation "measure (\<lambda>(sz, i, self_buffer, other_buffer, j, concat_buffer). sz - i - j)")
    auto

declare extract_pair_loop.simps [simp del]

definition extract_pair :: "'a list \<Rightarrow> 'a list \<Rightarrow> nat \<Rightarrow> error + 'a list" where
  "extract_pair self other i =
     (let sz = length self in
      if \<not> (0 \<le> i \<and> i < sz) then Inl Assertion_Failed
      else
        let self_buffer = self;
            other_buffer = other;
            concat_buffer = replicate sz None
        in load_aligned_scratch
             (extract_pair_loop sz i self_buffer other_buffer 0 concat_buffer))"

text \<open>
  The loop invariant: the content of cell \<open>k\<close> of \<^verbatim>\<open>concat_buffer\<close> when the loop is
  about to run iteration \<open>j\<close>.
\<close>

definition concat_before :: "nat \<Rightarrow> nat \<Rightarrow> 'a list \<Rightarrow> 'a list \<Rightarrow> nat \<Rightarrow> nat \<Rightarrow> 'a option" where
  "concat_before sz i self_buffer other_buffer j k =
     (if k < j then Some (other_buffer ! (i + k))
      else if sz - min j i \<le> k then Some (self_buffer ! (k - (sz - i)))
      else None)"

subsection \<open>The boolean \<^verbatim>\<open>store\<close>\<close>

text \<open>
  A batch_bool is the list of its logical lanes. The constructor
  \<^verbatim>\<open>batch<T, A>(batch_bool<T, A>)\<close> is declared outside the two source files; it is the
  function \<open>batch_of_batch_bool\<close>, whose parameter \<open>true_lane\<close> is the value the
  architecture gives a true lane (all bits set on most of them); a false lane is zero.
  \<^verbatim>\<open>kernel::store_aligned\<close> to the scratch \<^verbatim>\<open>buffer\<close>, of the batch's own type and
  width, leaves the lanes of the batch there.
\<close>

definition batch_of_batch_bool :: "'a::zero \<Rightarrow> bool list \<Rightarrow> 'a list" where
  "batch_of_batch_bool true_lane self = map (\<lambda>b. if b then true_lane else 0) self"

text \<open>The loop of lines 131 and 132; \<^verbatim>\<open>bool(x)\<close> is \<open>x \<noteq> 0\<close>.\<close>

function store_loop :: "nat \<Rightarrow> 'a::zero list \<Rightarrow> nat \<Rightarrow> bool list \<Rightarrow> bool list" where
  "store_loop sz buffer i mem =
     (if i < sz then store_loop sz buffer (i + 1) (mem[i := (buffer ! i \<noteq> 0)]) else mem)"
  by pat_completeness auto
termination
  by (relation "measure (\<lambda>(sz, buffer, i, mem). sz - i)") auto

declare store_loop.simps [simp del]

text \<open>
  \<^verbatim>\<open>mem\<close> is the bool array the pointer refers to; an array shorter than the batch
  would be written past its end, which is \<open>Out_Of_Bounds\<close>.
\<close>

definition store :: "'a::zero \<Rightarrow> bool list \<Rightarrow> bool list \<Rightarrow> error + bool list" where
  "store true_lane self mem =
     (let sz = length self;
          buffer = batch_of_batch_bool true_lane self
      in if length mem < sz then Inl Out_Of_Bounds
         else Inr (store_loop sz buffer 0 mem))"

subsection \<open>The converting \<^verbatim>\<open>store_aligned\<close> and \<^verbatim>\<open>store_unaligned\<close>\<close>

text \<open>
  \<^verbatim>\<open>std::copy\<close> from the scratch buffer to \<^verbatim>\<open>mem\<close>: each element is assigned through
  the implicit conversion from \<^verbatim>\<open>T_in\<close> to \<^verbatim>\<open>T_out\<close>, the parameter \<open>convert\<close>. The
  destination is the memory \<open>mem\<close> and the index \<open>p\<close> the pointer refers to.
\<close>

fun std_copy :: "('a \<Rightarrow> 'b) \<Rightarrow> 'a list \<Rightarrow> 'b list \<Rightarrow> nat \<Rightarrow> error + 'b list" where
  "std_copy convert [] mem p = Inr mem"
| "std_copy convert (x # xs) mem p =
     (if p < length mem then std_copy convert xs (mem[p := convert x]) (p + 1)
      else Inl Out_Of_Bounds)"

text \<open>
  Both functions start with the same \<^verbatim>\<open>static_assert\<close> on the two element types, which
  are passed as values of \<open>ctype\<close>. Neither reads the alignment of \<open>p\<close>: only the scratch
  buffer, which is aligned by its declaration, is stored to with an aligned store.
\<close>

definition store_aligned ::
  "ctype \<Rightarrow> ctype \<Rightarrow> ('a \<Rightarrow> 'b) \<Rightarrow> 'b list \<Rightarrow> nat \<Rightarrow> 'a list \<Rightarrow> error + 'b list" where
  "store_aligned T_in T_out convert mem p self =
     (if T_in = T_out then Inl Static_Assertion_Failed
      else
        let buffer = self
        in std_copy convert buffer mem p)"

definition store_unaligned ::
  "ctype \<Rightarrow> ctype \<Rightarrow> ('a \<Rightarrow> 'b) \<Rightarrow> 'b list \<Rightarrow> nat \<Rightarrow> 'a list \<Rightarrow> error + 'b list" where
  "store_unaligned T_in T_out convert mem p self =
     (if T_in = T_out then Inl Static_Assertion_Failed
      else store_aligned T_in T_out convert mem p self)"

subsection \<open>Complex load and store\<close>

text \<open>
  Modelled from the spec: the members \<^verbatim>\<open>batch::load_aligned\<close> and
  \<^verbatim>\<open>batch::store_aligned\<close> are declared outside the two source files. By the spec a
  batch is \<open>W\<close> contiguous values with no padding: the load reads \<open>W\<close> elements starting
  at the pointer and the store writes them there; going past the end of the memory is
  undefined, here \<open>Out_Of_Bounds\<close>. Addresses count elements, and the alignment that the
  aligned variants require of the caller is not represented.
\<close>

definition batch_load_aligned :: "nat \<Rightarrow> 'a list \<Rightarrow> nat \<Rightarrow> error + 'a list" where
  "batch_load_aligned W mem p =
     (if p + W \<le> length mem then Inr (take W (drop p mem)) else Inl Out_Of_Bounds)"

definition batch_store_aligned :: "'a list \<Rightarrow> 'a list \<Rightarrow> nat \<Rightarrow> error + 'a list" where
  "batch_store_aligned self mem p =
     (if p + length self \<le> length mem
      then Inr (take p mem @ self @ drop (p + length self) mem)
      else Inl Out_Of_Bounds)"

text \<open>
  A complex batch is the pair of its real and imaginary planes, as \<^verbatim>\<open>swizzle\<close> (lines
  154 to 158) takes it apart and builds it.
\<close>

record 'a complex_batch =
  real :: "'a list"
  imag :: "'a list"

fun evens :: "'a list \<Rightarrow> 'a list" where
  "evens (x # y # xs) = x # evens xs"
| "evens xs = xs"

fun odds :: "'a list \<Rightarrow> 'a list" where
  "odds (x # y # xs) = y # odds xs"
| "odds xs = []"

fun zip_lanes :: "'a list \<Rightarrow> 'a list \<Rightarrow> 'a list" where
  "zip_lanes (x # xs) (y # ys) = x # y # zip_lanes xs ys"
| "zip_lanes xs ys = []"

text \<open>
  Modelled from the spec: \<^verbatim>\<open>detail::load_complex\<close>, \<^verbatim>\<open>detail::complex_high\<close> and
  \<^verbatim>\<open>detail::complex_low\<close> have no generic definition (lines 160 to 179 only hold a
  \<^verbatim>\<open>static_assert\<close>); each backend supplies them, and no backend is among the source
  files. The spec fixes the memory layout as a contiguous array of (real, imaginary)
  pairs and the register layout as two parallel real batches. So \<open>load_complex\<close>
  takes the two halves of the interleaved array, the half at the lower address first,
  and separates the planes; \<open>complex_low\<close> and \<open>complex_high\<close> are the lower and the
  upper half of the planes interleaved again.
\<close>

definition load_complex :: "'a list \<Rightarrow> 'a list \<Rightarrow> 'a complex_batch" where
  "load_complex hi lo = \<lparr>real = evens (hi @ lo), imag = odds (hi @ lo)\<rparr>"

definition complex_low :: "'a complex_batch \<Rightarrow> 'a list" where
  "complex_low src = take (length (real src)) (zip_lanes (real src) (imag src))"

definition complex_high :: "'a complex_batch \<Rightarrow> 'a list" where
  "complex_high src = drop (length (real src)) (zip_lanes (real src) (imag src))"

text \<open>
  The generic framing of lines 182 to 190 and 204 to 213, for equal element types
  \<^verbatim>\<open>T_in\<close> and \<^verbatim>\<open>T_out\<close>; \<open>W\<close> is \<^verbatim>\<open>real_batch::size\<close>, and \<open>mem\<close> with \<open>p\<close> is the
  array of real values behind the \<^verbatim>\<open>reinterpret_cast\<close>.
\<close>

definition load_complex_aligned :: "nat \<Rightarrow> 'a list \<Rightarrow> nat \<Rightarrow> error + 'a complex_batch" where
  "load_complex_aligned W mem p =
     (case batch_load_aligned W mem p of
        Inl e \<Rightarrow> Inl e
      | Inr hi \<Rightarrow>
          (case batch_load_aligned W mem (p + W) of
             Inl e \<Rightarrow> Inl e
           | Inr lo \<Rightarrow> Inr (load_complex hi lo)))"

definition store_complex_aligned ::
  "nat \<Rightarrow> 'a list \<Rightarrow> nat \<Rightarrow> 'a complex_batch \<Rightarrow> error + 'a list" where
  "store_complex_aligned W dst p src =
     (let hi = complex_high src;
          lo = complex_low src
      in case batch_store_aligned lo dst p of
           Inl e \<Rightarrow> Inl e
         | Inr dst' \<Rightarrow> batch_store_aligned hi dst' (p + W))"

section \<open>Properties of the trait map\<close>

lemma specialization_batch: "specialization m (Batch T N) = None"
  by (simp add: specialization_def)

lemma simd_type_batch: "simd_type m (Batch T N) = Batch T N"
  by (simp add: simd_type_def simd_traits_def specialization_batch)

text \<open>
  Claim C7. A type without a compiled-in specialisation takes the primary template:
  \<^verbatim>\<open>simd_traits<T>\<close> is defined, with \<open>type = T\<close>, \<open>bool_type = bool\<close> and \<open>size = 1\<close>.
  When the instruction-set macros are below every version constant, so that no
  capability is enabled, this is the case for every type. The lookup returns a record in
  either case; only \<open>size\<close> tells the fallback from a hardware mapping.
\<close>

theorem simd_traits_fallback:
  "(specialization m T = None \<longrightarrow>
      simd_traits m T = \<lparr>tr_type = T, tr_bool_type = Bool, tr_size = 1\<rparr>) \<and>
   (XSIMD_X86_INSTR_SET m < XSIMD_X86_SSE2_VERSION m \<and>
    XSIMD_X86_INSTR_SET m < XSIMD_X86_AVX_VERSION m \<and>
    XSIMD_X86_INSTR_SET m < XSIMD_X86_AVX512_VERSION m \<and>
    XSIMD_ARM_INSTR_SET m < XSIMD_ARM7_NEON_VERSION m \<and>
    XSIMD_ARM_INSTR_SET m < XSIMD_ARM8_64_NEON_VERSION m \<longrightarrow>
      simd_traits m T = \<lparr>tr_type = T, tr_bool_type = Bool, tr_size = 1\<rparr>)"
  by (simp add: simd_traits_def specialization_def XSIMD_BATCH_FLOAT_SIZE_def
      XSIMD_BATCH_DOUBLE_SIZE_def)

theorem simd_traits_fallback_witness:
  "specialization sse2_env Int16 = None \<and>
   simd_traits sse2_env Int16 = \<lparr>tr_type = Int16, tr_bool_type = Bool, tr_size = 1\<rparr> \<and>
   simd_traits scalar_env Float = \<lparr>tr_type = Float, tr_bool_type = Bool, tr_size = 1\<rparr>"
  using simd_traits_fallback [of sse2_env Int16] simd_traits_fallback [of scalar_env Float]
  by (simp add: specialization_def)

text \<open>
  The two tables are paired entry by entry: a type with a forward specialisation of
  width \<open>N\<close> has the revert specialisation for its batch of width \<open>N\<close>, and a type
  that is not a batch has no revert specialisation.
\<close>

lemma batch_eq_map_option:
  "Some (Batch T N) = map_option (Batch U) W \<longleftrightarrow> T = U \<and> W = Some N"
  by (cases W) auto

lemma not_batch_eq_map_option:
  "\<not> is_batch T \<Longrightarrow> Some T \<noteq> map_option (Batch U) W"
  by (cases W) auto

lemma specialization_cases:
  assumes "specialization m T = Some N"
  shows "(XSIMD_BATCH_FLOAT_SIZE m \<noteq> None \<and>
            (T = int8_t \<and> XSIMD_BATCH_INT8_SIZE m = Some N \<or>
             T = uint8_t \<and> XSIMD_BATCH_INT8_SIZE m = Some N \<or>
             T = int32_t \<and> XSIMD_BATCH_INT32_SIZE m = Some N \<or>
             T = int64_t \<and> XSIMD_BATCH_INT64_SIZE m = Some N \<or>
             T = Float \<and> XSIMD_BATCH_FLOAT_SIZE m = Some N \<or>
             T = Std_Complex Float \<and> XSIMD_BATCH_FLOAT_SIZE m = Some N \<or>
             XSIMD_ENABLE_XTL_COMPLEX m \<and> T = Xcomplex Float Float False
               \<and> XSIMD_BATCH_FLOAT_SIZE m = Some N \<or>
             XSIMD_ENABLE_XTL_COMPLEX m \<and> T = Xcomplex Float Float True
               \<and> XSIMD_BATCH_FLOAT_SIZE m = Some N)) \<or>
         (XSIMD_BATCH_DOUBLE_SIZE m \<noteq> None \<and>
            (T = Double \<and> XSIMD_BATCH_DOUBLE_SIZE m = Some N \<or>
             T = Std_Complex Double \<and> XSIMD_BATCH_DOUBLE_SIZE m = Some N \<or>
             XSIMD_ENABLE_XTL_COMPLEX m \<and> T = Xcomplex Double Double False
               \<and> XSIMD_BATCH_DOUBLE_SIZE m = Some N \<or>
             XSIMD_ENABLE_XTL_COMPLEX m \<and> T = Xcomplex Double Double True
               \<and> XSIMD_BATCH_DOUBLE_SIZE m = Some N))"
  using assms unfolding specialization_def
  by (simp split: if_splits)

lemma revert_specialization_of_specialization:
  assumes "specialization m T = Some N"
  shows "revert_specialization m (Batch T N) = Some T"
  using specialization_cases [OF assms]
  by (elim disjE conjE) (simp_all add: revert_specialization_def batch_eq_map_option)

lemma revert_specialization_not_batch:
  "\<not> is_batch T \<Longrightarrow> revert_specialization m T = None"
  by (simp add: revert_specialization_def not_batch_eq_map_option)

text \<open>
  Claim C6. The trait map round-trips on every type that is not itself a batch, hence
  on every scalar type, in every environment: \<^verbatim>\<open>revert_simd_traits\<close> applied to
  \<^verbatim>\<open>simd_traits<T>::type\<close> has \<open>type = T\<close> and the \<open>size\<close> of \<^verbatim>\<open>simd_traits<T>\<close>, for a
  registered type and for one that takes the identity fallback alike.
\<close>

theorem revert_simd_traits_roundtrip:
  assumes "\<not> is_batch T"
  shows "rv_type (revert_simd_traits m (simd_type m T)) = T \<and>
         rv_size (revert_simd_traits m (simd_type m T)) = tr_size (simd_traits m T)"
proof (cases "specialization m T")
  case None
  then have "simd_type m T = T"
    by (simp add: simd_type_def simd_traits_def)
  moreover from assms have "revert_specialization m T = None"
    by (rule revert_specialization_not_batch)
  ultimately show ?thesis
    by (simp add: revert_simd_traits_def)
next
  case (Some N)
  then have "simd_type m T = Batch T N"
    by (simp add: simd_type_def simd_traits_def)
  moreover from Some have "revert_specialization m (Batch T N) = Some T"
    by (rule revert_specialization_of_specialization)
  ultimately show ?thesis
    by (simp add: revert_simd_traits_def)
qed

theorem revert_simd_traits_roundtrip_witness:
  "\<not> is_batch Float \<and> simd_type sse2_env Float = Batch Float 4 \<and>
   rv_type (revert_simd_traits sse2_env (simd_type sse2_env Float)) = Float \<and>
   rv_size (revert_simd_traits sse2_env (simd_type sse2_env Float)) = 4 \<and>
   \<not> is_batch Int16 \<and> simd_type sse2_env Int16 = Int16 \<and>
   rv_type (revert_simd_traits sse2_env (simd_type sse2_env Int16)) = Int16 \<and>
   rv_size (revert_simd_traits sse2_env (simd_type sse2_env Int16)) = 1"
  using revert_simd_traits_roundtrip [of Float sse2_env]
    revert_simd_traits_roundtrip [of Int16 sse2_env]
  by (simp add: simd_type_def simd_traits_def specialization_def XSIMD_BATCH_FLOAT_SIZE_def
      batch_size_def)

section \<open>Properties of the promotion resolver\<close>

lemma simd_condition_batch: "simd_condition m (Batch A N) T2 \<longleftrightarrow> T2 = Batch A N"
  by (auto simp add: simd_condition_def)

lemma simd_condition_batch_bool: "simd_condition m (Batch_Bool A N) T2 \<longleftrightarrow> T2 = Batch_Bool A N"
  by (auto simp add: simd_condition_def)

lemma simd_return_type_impl_primary:
  "\<not> is_batch T1 \<and> \<not> is_batch_bool T1 \<Longrightarrow>
   simd_return_type_impl m T1 T2 =
     (if simd_condition m T1 T2 then Some (simd_type m T2) else None)"
  by (cases T1; cases T2) simp_all

lemma simd_return_type_impl_batch_scalar:
  "\<not> is_batch T2 \<and> \<not> is_batch_bool T2 \<Longrightarrow> simd_return_type_impl m (Batch A N) T2 = None"
  by (cases T2) (simp_all add: simd_condition_batch)

lemma simd_return_type_impl_batch_bool_other:
  "\<not> is_batch_bool T2 \<Longrightarrow> simd_return_type_impl m (Batch_Bool A N) T2 = None"
  by (cases T2) (simp_all add: simd_condition_batch_bool)

text \<open>
  Claim C1. When \<open>A\<close> is admissible against \<open>B\<close>, the result for two batches is the
  second operand at its declared width \<open>N2\<close>, whatever the trait map would compute for
  \<open>B\<close>; a batch or a batch_bool against a batch_bool gives the batch_bool of declared
  width \<open>N2\<close>. With the scalar \<^verbatim>\<open>int32_t\<close> first, \<^verbatim>\<open>batch<double, W>\<close> resolves to itself
  for every width \<open>W\<close>, native or not.
\<close>

theorem simd_return_type_keeps_width:
  "simd_condition m A B \<Longrightarrow>
     simd_return_type m (Batch A N1) (Batch B N2) = Some (Batch B N2) \<and>
     simd_return_type m (Batch A N1) (Batch_Bool B N2) = Some (Batch_Bool B N2) \<and>
     simd_return_type m (Batch_Bool A N1) (Batch_Bool B N2) = Some (Batch_Bool B N2) \<and>
     simd_return_type m int32_t (Batch Double W) = Some (Batch Double W)"
  by (simp add: simd_return_type_def simd_condition_def simd_type_batch)

theorem simd_return_type_keeps_width_witness:
  "simd_condition sse2_env Float Double \<and>
   simd_type sse2_env Double = Batch Double 2 \<and>
   simd_return_type sse2_env (Batch Float 3) (Batch Double 5) = Some (Batch Double 5) \<and>
   simd_return_type sse2_env (Batch Float 3) (Batch_Bool Double 5) = Some (Batch_Bool Double 5) \<and>
   simd_return_type sse2_env (Batch_Bool Float 3) (Batch_Bool Double 5)
     = Some (Batch_Bool Double 5) \<and>
   simd_return_type sse2_env int32_t (Batch Double 7) = Some (Batch Double 7)"
  using simd_return_type_keeps_width [of sse2_env Float Double 3 5 7]
  by (simp add: simd_condition_def simd_type_def simd_traits_def specialization_def
      XSIMD_BATCH_FLOAT_SIZE_def XSIMD_BATCH_DOUBLE_SIZE_def)

text \<open>
  Claim C2, as stated, fails: two batches of \<^verbatim>\<open>double\<close> of declared widths 2 and 4
  resolve, to the second operand.
\<close>

theorem simd_return_type_width_mismatch_counterexample:
  "simd_return_type sse2_env (Batch Double 2) (Batch Double 4) = Some (Batch Double 4)"
  by (simp add: simd_return_type_def simd_condition_def)

text \<open>
  Claim C2, amended. For every element type \<open>T\<close> and all widths \<open>W1\<close> and \<open>W2\<close>, equal or
  not, \<^verbatim>\<open>simd_return_type<batch<T, W1>, batch<T, W2>>\<close> is defined and is
  \<^verbatim>\<open>batch<T, W2>\<close>: the widths are never compared, and the second operand's declared
  width is the result's.
\<close>

theorem simd_return_type_same_element:
  "simd_return_type m (Batch T W1) (Batch T W2) = Some (Batch T W2)"
  by (simp add: simd_return_type_def simd_condition_def)

text \<open>
  Claim C3, as stated, fails: with a batch first and a scalar second the primary template
  compares the operand types themselves, not their element types. A batch of \<^verbatim>\<open>float\<close>
  against \<^verbatim>\<open>float\<close> has equal element types, and \<^verbatim>\<open>float\<close> is in the list, yet nothing
  resolves; likewise a batch_bool against the batch of the same element type.
\<close>

theorem simd_return_type_element_counterexample:
  "simd_return_type sse2_env (Batch Float 4) Float = None \<and>
   simd_return_type sse2_env (Batch_Bool Float 4) (Batch Float 4) = None"
  by (simp add: simd_return_type_def simd_condition_def)

text \<open>
  The 8-bit entries of \<^verbatim>\<open>simd_condition\<close> are \<^verbatim>\<open>char\<close> and \<^verbatim>\<open>unsigned char\<close>, while
  the trait map registers \<^verbatim>\<open>int8_t\<close> and \<^verbatim>\<open>uint8_t\<close>: against \<^verbatim>\<open>float\<close>, the
  unsigned 8-bit type and plain \<^verbatim>\<open>char\<close> resolve and \<^verbatim>\<open>int8_t\<close> does not.
\<close>

lemma simd_return_type_8bit:
  "simd_return_type sse2_env uint8_t Float = Some (Batch Float 4) \<and>
   simd_return_type sse2_env Char Float = Some (Batch Float 4) \<and>
   simd_return_type sse2_env int8_t Float = None"
  by (simp add: simd_return_type_def simd_condition_def simd_type_def simd_traits_def
      specialization_def XSIMD_BATCH_FLOAT_SIZE_def)

lemma simd_condition_listed:
  "X \<notin> {Char, int8_t} \<or> X = Y \<Longrightarrow>
   simd_condition m X Y \<longleftrightarrow>
     X = Y \<or> X \<in> {Float, Double, int64_t, int32_t, uint8_t} \<or> is_complex m X"
  by (auto simp add: simd_condition_def)

text \<open>
  Claim C3, amended. Let the first type be neither \<^verbatim>\<open>char\<close> nor \<^verbatim>\<open>int8_t\<close>, or be
  equal to the second. For the operand pairs batch and batch, batch and batch_bool,
  batch_bool and batch_bool, \<^verbatim>\<open>simd_return_type\<close> is then defined exactly when the
  element type of the first equals that of the second or is one of \<^verbatim>\<open>float\<close>,
  \<^verbatim>\<open>double\<close>, \<^verbatim>\<open>int64_t\<close>, \<^verbatim>\<open>int32_t\<close>, the 8-bit unsigned integer or a complex type.
  When the first operand is a scalar, it is defined exactly when the two operand types
  are the same type or the first operand is one of those types. Every remaining pair (a
  batch against a scalar, a batch_bool against a scalar or a batch) is undefined. Where
  the result is undefined it is \<open>None\<close>: there is no fallback type. Nothing is stated
  for a first type \<^verbatim>\<open>char\<close> or \<^verbatim>\<open>int8_t\<close> that differs from the second.
\<close>

theorem simd_return_type_defined_iff:
  "(A \<notin> {Char, int8_t} \<or> A = B \<longrightarrow>
      (simd_return_type m (Batch A N1) (Batch B N2) \<noteq> None \<longleftrightarrow>
         A = B \<or> A \<in> {Float, Double, int64_t, int32_t, uint8_t} \<or> is_complex m A) \<and>
      (simd_return_type m (Batch A N1) (Batch_Bool B N2) \<noteq> None \<longleftrightarrow>
         A = B \<or> A \<in> {Float, Double, int64_t, int32_t, uint8_t} \<or> is_complex m A) \<and>
      (simd_return_type m (Batch_Bool A N1) (Batch_Bool B N2) \<noteq> None \<longleftrightarrow>
         A = B \<or> A \<in> {Float, Double, int64_t, int32_t, uint8_t} \<or> is_complex m A)) \<and>
   (\<not> is_batch X \<and> \<not> is_batch_bool X \<and> (X \<notin> {Char, int8_t} \<or> X = Y) \<longrightarrow>
      (simd_return_type m X Y \<noteq> None \<longleftrightarrow>
         X = Y \<or> X \<in> {Float, Double, int64_t, int32_t, uint8_t} \<or> is_complex m X)) \<and>
   (\<not> is_batch Y \<and> \<not> is_batch_bool Y \<longrightarrow> simd_return_type m (Batch A N1) Y = None) \<and>
   (\<not> is_batch_bool Y \<longrightarrow> simd_return_type m (Batch_Bool A N1) Y = None)"
proof -
  have p1: "simd_return_type m (Batch A N1) (Batch B N2) \<noteq> None \<longleftrightarrow> simd_condition m A B"
    by (simp add: simd_return_type_def)
  have p2: "simd_return_type m (Batch A N1) (Batch_Bool B N2) \<noteq> None \<longleftrightarrow> simd_condition m A B"
    by (simp add: simd_return_type_def)
  have p3: "simd_return_type m (Batch_Bool A N1) (Batch_Bool B N2) \<noteq> None
      \<longleftrightarrow> simd_condition m A B"
    by (simp add: simd_return_type_def)
  have p4: "\<not> is_batch X \<and> \<not> is_batch_bool X \<longrightarrow>
      (simd_return_type m X Y \<noteq> None \<longleftrightarrow> simd_condition m X Y)"
    by (simp add: simd_return_type_def simd_return_type_impl_primary)
  have p5: "\<not> is_batch Y \<and> \<not> is_batch_bool Y \<longrightarrow> simd_return_type m (Batch A N1) Y = None"
    by (simp add: simd_return_type_def simd_return_type_impl_batch_scalar)
  have p6: "\<not> is_batch_bool Y \<longrightarrow> simd_return_type m (Batch_Bool A N1) Y = None"
    by (simp add: simd_return_type_def simd_return_type_impl_batch_bool_other)
  have batches: "A \<notin> {Char, int8_t} \<or> A = B \<longrightarrow>
      (simd_condition m A B \<longleftrightarrow>
         A = B \<or> A \<in> {Float, Double, int64_t, int32_t, uint8_t} \<or> is_complex m A)"
    using simd_condition_listed [of A B m] by blast
  have scalars: "X \<notin> {Char, int8_t} \<or> X = Y \<longrightarrow>
      (simd_condition m X Y \<longleftrightarrow>
         X = Y \<or> X \<in> {Float, Double, int64_t, int32_t, uint8_t} \<or> is_complex m X)"
    using simd_condition_listed [of X Y m] by blast
  show ?thesis
    unfolding p1 p2 p3 using p4 p5 p6 batches scalars by blast
qed

theorem simd_return_type_defined_iff_witness:
  "Float \<notin> {Char, int8_t} \<and>
   simd_return_type sse2_env (Batch Float 4) (Batch Double 2) \<noteq> None \<and>
   simd_return_type sse2_env (Batch Float 4) (Batch_Bool Double 2) \<noteq> None \<and>
   simd_return_type sse2_env (Batch_Bool Float 4) (Batch_Bool Double 2) \<noteq> None \<and>
   Int16 \<notin> {Char, int8_t} \<and>
   simd_return_type sse2_env (Batch Int16 8) (Batch Float 4) = None \<and>
   \<not> is_batch int32_t \<and> \<not> is_batch_bool int32_t \<and> int32_t \<notin> {Char, int8_t} \<and>
   simd_return_type sse2_env int32_t (Batch Double 7) \<noteq> None \<and>
   \<not> is_batch Int16 \<and> \<not> is_batch_bool Int16 \<and>
   simd_return_type sse2_env Int16 Float = None \<and>
   \<not> is_batch Float \<and> \<not> is_batch_bool Float \<and>
   simd_return_type sse2_env (Batch Int16 8) Float = None \<and>
   simd_return_type sse2_env (Batch_Bool Int16 8) Float = None \<and>
   \<not> is_batch_bool (Batch Double 7) \<and>
   simd_return_type sse2_env (Batch_Bool Float 4) (Batch Double 7) = None"
  using simd_return_type_defined_iff
      [where m = sse2_env and A = Float and B = Double and ?N1.0 = 4 and ?N2.0 = 2
         and X = int32_t and Y = "Batch Double 7"]
    simd_return_type_defined_iff
      [where m = sse2_env and A = Int16 and B = Float and ?N1.0 = 8 and ?N2.0 = 4
         and X = Int16 and Y = Float]
  by simp

section \<open>Properties of \<^verbatim>\<open>extract_pair\<close>\<close>

lemma extract_pair_loop_inv:
  "j \<le> sz - i \<Longrightarrow> i \<le> sz \<Longrightarrow>
   extract_pair_loop sz i self_b other_b j (map (concat_before sz i self_b other_b j) [0..<sz])
     = map (concat_before sz i self_b other_b (sz - i)) [0..<sz]"
proof (induction "sz - i - j" arbitrary: j)
  case 0
  then have "j = sz - i" by simp
  then show ?case by (simp add: extract_pair_loop.simps)
next
  case (Suc d)
  then have lt: "j < sz - i" by simp
  have step: "(if j < i
        then (map (concat_before sz i self_b other_b j) [0..<sz])
               [j := Some (other_b ! (i + j)), sz - 1 - j := Some (self_b ! (i - 1 - j))]
        else (map (concat_before sz i self_b other_b j) [0..<sz])[j := Some (other_b ! (i + j))])
      = map (concat_before sz i self_b other_b (j + 1)) [0..<sz]"
    using lt Suc.prems
    by (auto intro!: nth_equalityI simp add: nth_list_update concat_before_def min_def)
  have "extract_pair_loop sz i self_b other_b (j + 1)
          (map (concat_before sz i self_b other_b (j + 1)) [0..<sz])
        = map (concat_before sz i self_b other_b (sz - i)) [0..<sz]"
    using Suc.hyps(1)[of "j + 1"] Suc.hyps(2) lt Suc.prems by simp
  then show ?case
    using lt step
    by (subst extract_pair_loop.simps) (simp add: Let_def)
qed

lemma concat_before_0:
  "0 < sz \<Longrightarrow> map (concat_before sz i self_b other_b 0) [0..<sz] = replicate sz None"
  by (auto intro!: nth_equalityI simp add: concat_before_def)

text \<open>
  What the loop leaves in \<^verbatim>\<open>concat_buffer\<close>: the lanes of \<open>other\<close> from \<open>i\<close> on in the
  first \<open>sz - i\<close> cells, lanes of \<open>self\<close> in the last \<open>min (sz - i) i\<close> cells, and nothing
  in between.
\<close>

lemma extract_pair_loop_result:
  assumes "i < sz"
  shows "extract_pair_loop sz i self_b other_b 0 (replicate sz None)
     = map (\<lambda>k. if k < sz - i then Some (other_b ! (i + k))
                 else if sz - min (sz - i) i \<le> k then Some (self_b ! (k - (sz - i)))
                 else None) [0..<sz]"
proof -
  have "extract_pair_loop sz i self_b other_b 0
          (map (concat_before sz i self_b other_b 0) [0..<sz])
      = map (concat_before sz i self_b other_b (sz - i)) [0..<sz]"
    using assms by (intro extract_pair_loop_inv) simp_all
  moreover have "map (concat_before sz i self_b other_b 0) [0..<sz] = replicate sz None"
    using assms by (intro concat_before_0) simp
  ultimately show ?thesis
    by (simp add: concat_before_def [abs_def])
qed

text \<open>
  Up to half the width the window is complete: the result is the lanes of \<open>other\<close> from
  \<open>i\<close> on, followed by the first \<open>i\<close> lanes of \<open>self\<close>.
\<close>

lemma extract_pair_lower_half:
  assumes "length self = length other" "2 * i \<le> length self" "i < length self"
  shows "extract_pair self other i = Inr (drop i other @ take i self)"
proof -
  let ?sz = "length self"
  have "extract_pair_loop ?sz i self other 0 (replicate ?sz None)
      = map Some (drop i other @ take i self)"
    using assms
    by (auto intro!: nth_equalityI simp add: extract_pair_loop_result nth_append min_def)
  then show ?thesis
    using assms by (auto simp add: extract_pair_def load_aligned_scratch_def comp_def)
qed

text \<open>Past half the width, cell \<open>sz - i\<close> is never assigned and the final load reads it.\<close>

lemma extract_pair_upper_half:
  assumes "length self = length other" "length self < 2 * i" "i < length self"
  shows "extract_pair self other i = Inl Uninitialized_Read"
proof -
  let ?sz = "length self"
  let ?r = "extract_pair_loop ?sz i self other 0 (replicate ?sz None)"
  have "?r ! (?sz - i) = None" "length ?r = ?sz"
    using assms by (auto simp add: extract_pair_loop_result min_def)
  moreover have "?sz - i < ?sz"
    using assms by simp
  ultimately have "None \<in> set ?r"
    by (metis nth_mem)
  then show ?thesis
    using assms by (simp add: extract_pair_def load_aligned_scratch_def)
qed

text \<open>
  Claim C4 asks, for every \<open>i\<close> below the width, for the window at offset \<open>i\<close> of
  \<open>other\<close> followed by \<open>self\<close>. The code delivers it for the spec's example
  (\<open>i = 1\<close>, result \<open>[11, 12, 13, 0]\<close>), but not for \<open>i = 3\<close> at width 4: the loop runs
  once, assigns cells 0 and 3 only, and the load reads the two cells in between, where
  the claim has \<open>[13, 0, 1, 2]\<close>.
\<close>

theorem extract_pair_index_3_of_4:
  "extract_pair [0, 1, 2, 3 :: int] [10, 11, 12, 13] 1 = Inr [11, 12, 13, 0] \<and>
   extract_pair_loop 4 3 [0, 1, 2, 3 :: int] [10, 11, 12, 13] 0 (replicate 4 None)
     = [Some 13, None, None, Some 2] \<and>
   extract_pair [0, 1, 2, 3 :: int] [10, 11, 12, 13] 3 = Inl Uninitialized_Read"
  by (simp add: extract_pair_def load_aligned_scratch_def extract_pair_loop.simps
      numeral_eq_Suc)

text \<open>
  Claim C10. At rotation index 0 the result is \<open>other\<close>, lane for lane: no lane of
  \<open>self\<close> is copied, so the result does not depend on \<open>self\<close>. Both batches have the
  same width, which is at least one lane.
\<close>

theorem extract_pair_index_0:
  assumes "length self = length other" "0 < length self"
  shows "extract_pair self other 0 = Inr other"
proof -
  have "extract_pair_loop (length self) 0 self other 0 (replicate (length self) None)
      = map Some other"
    using assms by (auto intro!: nth_equalityI simp add: extract_pair_loop_result)
  then show ?thesis
    using assms by (auto simp add: extract_pair_def load_aligned_scratch_def comp_def)
qed

theorem extract_pair_index_0_witness:
  "length [0, 1, 2, 3 :: int] = length [10, 11, 12, 13 :: int] \<and>
   0 < length [0, 1, 2, 3 :: int] \<and>
   extract_pair [0, 1, 2, 3 :: int] [10, 11, 12, 13] 0 = Inr [10, 11, 12, 13]"
  using extract_pair_index_0 [of "[0, 1, 2, 3 :: int]" "[10, 11, 12, 13]"]
  by simp

section \<open>Properties of the stores\<close>

lemma store_loop_result:
  "i \<le> sz \<Longrightarrow> sz \<le> length mem \<Longrightarrow> sz \<le> length buffer \<Longrightarrow>
   store_loop sz buffer i mem
     = take i mem @ map (\<lambda>x. x \<noteq> 0) (take (sz - i) (drop i buffer)) @ drop sz mem"
proof (induction sz buffer i mem rule: store_loop.induct)
  case (1 sz buffer i mem)
  show ?case
  proof (cases "i < sz")
    case True
    have d: "drop i buffer = buffer ! i # drop (Suc i) buffer"
      using True 1(4) by (simp add: Cons_nth_drop_Suc)
    have s: "sz - i = Suc (sz - Suc i)"
      using True by simp
    have "store_loop sz buffer (i + 1) (mem[i := (buffer ! i \<noteq> 0)])
        = take (i + 1) (mem[i := (buffer ! i \<noteq> 0)])
          @ map (\<lambda>x. x \<noteq> 0) (take (sz - (i + 1)) (drop (i + 1) buffer))
          @ drop sz (mem[i := (buffer ! i \<noteq> 0)])"
      using True 1 by simp
    also have "take (i + 1) (mem[i := (buffer ! i \<noteq> 0)]) = take i mem @ [buffer ! i \<noteq> 0]"
      using True 1(3) by (simp add: take_Suc_conv_app_nth)
    also have "drop sz (mem[i := (buffer ! i \<noteq> 0)]) = drop sz mem"
      using True by simp
    finally show ?thesis
      using True by (subst store_loop.simps) (simp add: d s)
  next
    case False
    with 1(2) have "i = sz" by simp
    then show ?thesis
      by (subst store_loop.simps) simp
  qed
qed

text \<open>
  Claim C8. Whatever nonzero value the architecture gives a true lane, the boolean store
  to an array of at least \<open>W\<close> elements succeeds and leaves the \<open>W\<close> lanes of \<open>self\<close> in
  \<open>mem[0]\<close> to \<open>mem[W - 1]\<close>, true for a true lane and false for a false one: the array
  afterwards is the list of the lanes of \<open>self\<close> followed by what the array held from
  index \<open>W\<close> on.
\<close>

theorem store_batch_bool_lanes:
  assumes "true_lane \<noteq> 0" "length self \<le> length mem"
  shows "store true_lane self mem = Inr (self @ drop (length self) mem)"
proof -
  have "map (\<lambda>x. x \<noteq> 0) (batch_of_batch_bool true_lane self) = self"
    using assms(1) by (induction self) (simp_all add: batch_of_batch_bool_def)
  moreover have "length (batch_of_batch_bool true_lane self) = length self"
    by (simp add: batch_of_batch_bool_def)
  ultimately show ?thesis
    using assms(2) by (simp add: store_def store_loop_result Let_def)
qed

theorem store_batch_bool_lanes_witness:
  "(- 1 :: 8 word) \<noteq> 0 \<and>
   length [True, False, True, True] \<le> length [False, False, False, False, True] \<and>
   store (- 1 :: 8 word) [True, False, True, True] [False, False, False, False, True]
     = Inr [True, False, True, True, True] \<and>
   store (1 :: 8 word) [True, False, True, True] [False, False, False, False, True]
     = Inr [True, False, True, True, True]"
  using store_batch_bool_lanes
      [of "- 1 :: 8 word" "[True, False, True, True]" "[False, False, False, False, True]"]
    store_batch_bool_lanes
      [of "1 :: 8 word" "[True, False, True, True]" "[False, False, False, False, True]"]
  by simp

lemma std_copy_result:
  "p + length xs \<le> length mem \<Longrightarrow>
   std_copy convert xs mem p = Inr (take p mem @ map convert xs @ drop (p + length xs) mem)"
proof (induction xs arbitrary: mem p)
  case Nil
  then show ?case by simp
next
  case (Cons x xs)
  then have "std_copy convert xs (mem[p := convert x]) (p + 1)
      = Inr (take (p + 1) (mem[p := convert x]) @ map convert xs
             @ drop (p + 1 + length xs) (mem[p := convert x]))"
    by (intro Cons.IH) simp
  moreover have "take (p + 1) (mem[p := convert x]) = take p mem @ [convert x]"
    using Cons.prems by (simp add: take_Suc_conv_app_nth)
  ultimately show ?case
    using Cons.prems by simp
qed

text \<open>
  Claim C9. The generic converting \<^verbatim>\<open>store_unaligned\<close> returns what the generic
  converting \<^verbatim>\<open>store_aligned\<close> returns, for every batch, conversion, memory and pointer,
  aligned or not. For distinct element types and a destination with room for the
  batch, both write the converted lanes at the pointer and leave the rest of the memory
  alone.
\<close>

theorem store_unaligned_is_store_aligned:
  "store_unaligned T_in T_out convert mem p self = store_aligned T_in T_out convert mem p self \<and>
   (T_in \<noteq> T_out \<and> p + length self \<le> length mem \<longrightarrow>
      store_unaligned T_in T_out convert mem p self
        = Inr (take p mem @ map convert self @ drop (p + length self) mem))"
  by (simp add: store_unaligned_def store_aligned_def std_copy_result)

theorem store_unaligned_is_store_aligned_witness:
  "uint8_t \<noteq> int32_t \<and> 1 + length [200, 7 :: 8 word] \<le> length [0, 0, 0, 0 :: 32 word] \<and>
   store_aligned uint8_t int32_t ucast [0, 0, 0, 0 :: 32 word] 1 [200, 7 :: 8 word]
     = Inr [0, 200, 7, 0] \<and>
   store_unaligned uint8_t int32_t ucast [0, 0, 0, 0 :: 32 word] 1 [200, 7 :: 8 word]
     = Inr [0, 200, 7, 0]"
  using store_unaligned_is_store_aligned
      [of uint8_t int32_t ucast "[0, 0, 0, 0 :: 32 word]" 1 "[200, 7 :: 8 word]"]
  by auto

section \<open>The complex round trip\<close>

lemma zip_evens_odds: "even (length xs) \<Longrightarrow> zip_lanes (evens xs) (odds xs) = xs"
  by (induction xs rule: evens.induct) simp_all

lemma length_evens: "even (length xs) \<Longrightarrow> 2 * length (evens xs) = length xs"
  by (induction xs rule: evens.induct) simp_all

lemma complex_low_load_complex:
  "length hi = length lo \<Longrightarrow> complex_low (load_complex hi lo) = hi"
  using zip_evens_odds [of "hi @ lo"] length_evens [of "hi @ lo"]
  by (simp add: complex_low_def load_complex_def)

lemma complex_high_load_complex:
  "length hi = length lo \<Longrightarrow> complex_high (load_complex hi lo) = lo"
  using zip_evens_odds [of "hi @ lo"] length_evens [of "hi @ lo"]
  by (simp add: complex_high_def load_complex_def)

text \<open>
  Claim C5. For an interleaved buffer \<open>src\<close> of \<open>W\<close> complex elements, that is \<open>2 * W\<close>
  real values, \<^verbatim>\<open>load_complex_aligned\<close> followed by \<^verbatim>\<open>store_complex_aligned\<close> to a
  buffer \<open>dst\<close> of the same size succeeds and leaves \<open>dst\<close> equal to \<open>src\<close>, whatever
  \<open>dst\<close> held before. The load hands the first and the second half of \<open>src\<close> to the
  composer; the store writes \<^verbatim>\<open>complex_low\<close> at the pointer and \<^verbatim>\<open>complex_high\<close>
  right after it.
\<close>

theorem complex_store_load_roundtrip:
  assumes "length src = 2 * W" "length dst = 2 * W"
  shows "(case load_complex_aligned W src 0 of
            Inl e \<Rightarrow> Inl e
          | Inr b \<Rightarrow> store_complex_aligned W dst 0 b) = Inr src"
proof -
  define hi where "hi = take W src"
  define lo where "lo = drop W src"
  have len: "length hi = W" "length lo = W" and cat: "hi @ lo = src"
    using assms(1) by (simp_all add: hi_def lo_def)
  have ld: "load_complex_aligned W src 0 = Inr (load_complex hi lo)"
    using assms(1) by (simp add: load_complex_aligned_def batch_load_aligned_def hi_def lo_def)
  have "batch_store_aligned hi dst 0 = Inr (hi @ drop W dst)"
    using assms(2) len by (simp add: batch_store_aligned_def)
  moreover have "batch_store_aligned lo (hi @ drop W dst) W = Inr (hi @ lo)"
    using assms(2) len by (simp add: batch_store_aligned_def)
  ultimately have "store_complex_aligned W dst 0 (load_complex hi lo) = Inr src"
    using len cat
    by (simp add: store_complex_aligned_def complex_low_load_complex
        complex_high_load_complex Let_def)
  with ld show ?thesis by simp
qed

theorem complex_store_load_roundtrip_witness:
  "length [1, 2, 3, 4 :: int] = 2 * 2 \<and> length [0, 0, 0, 0 :: int] = 2 * 2 \<and>
   load_complex_aligned 2 [1, 2, 3, 4 :: int] 0 = Inr \<lparr>real = [1, 3], imag = [2, 4]\<rparr> \<and>
   (case load_complex_aligned 2 [1, 2, 3, 4 :: int] 0 of
      Inl e \<Rightarrow> Inl e
    | Inr b \<Rightarrow> store_complex_aligned 2 [0, 0, 0, 0] 0 b) = Inr [1, 2, 3, 4]"
  using complex_store_load_roundtrip [of "[1, 2, 3, 4 :: int]" 2 "[0, 0, 0, 0]"]
  by (simp add: load_complex_aligned_def batch_load_aligned_def load_complex_def)

end
